theory Spec2Isabelle
  imports Main
begin

section \<open>The application bootstrapper of src/framework/index.ts\<close>

text \<open>
  The module exports one function, \<open>createApp\<close>, which loads the user's schema modules,
  resolves (or synthesizes) the context module and returns an object with one method,
  \<open>startServer\<close>. Everything it does is an effect on the outside world, so the embedding
  threads a state through the calls and records each call into an external collaborator
  (debug log, \<open>require\<close>, \<open>fs.write\<close>, the schema builder, the GraphQL server, express,
  the console) as an event of a trace, in program order.

  The collaborators themselves (fs-jetpack, Node's module loader, nexus, apollo, express)
  are not code of this module. What the module reads from them is a parameter of the
  model (the record \<open>world\<close>) or part of the state; their calls are taken on the path
  where they return normally, so the only error of the model is the one the module throws
  itself.
\<close>

subsection \<open>Filesystem\<close>

text \<open>The answers of fs-jetpack's \<open>exists\<close>: \<open>false\<close>, \<open>'file'\<close>, \<open>'dir'\<close>, \<open>'other'\<close>.\<close>

datatype exists_result = Absent | File | Dir | Other

datatype entry = FileEntry string | DirEntry | OtherEntry

text \<open>The options object handed to fs-jetpack's \<open>find\<close>.\<close>

record find_options =
  files :: bool
  directories :: bool
  recursive :: bool
  matching :: string

subsection \<open>Events, state and world\<close>

datatype event =
    Debug string "string list"
  | Require string
  | Write string string
  | NexusPrismaPlugin string string bool
  | MakeSchema string string bool bool "string list"
  | NewApolloServer bool bool string
  | Express
  | ApplyMiddleware
  | Listen int
  | ConsoleLog string

text \<open>
  \<open>NexusPrismaPlugin photon typegen shouldGenerateArtifacts\<close>;
  \<open>MakeSchema contextSource photonSource shouldGenerateArtifacts
  shouldExitAfterGenerateArtifacts registry\<close>, where the last argument is the content of
  the process-wide registry at the moment the schema is built from it;
  \<open>NewApolloServer playground introspection contextModule\<close>, where the last argument is
  the module whose \<open>createContext\<close> is handed over.
\<close>

text \<open>
  Modelled from the spec: the schema registry lives in the module \<open>./nexus\<close>
  (\<open>createNexusSingleton\<close>), which is not among the sources. The spec describes it as a
  process-wide accumulating collection of definitions, created empty, contributed to by
  the side-effecting calls a module makes while it is evaluated, and read when the schema
  is built. Here it is the list \<open>registry\<close> of the state; what a module contributes
  when it is evaluated is the world's \<open>registers\<close>.
\<close>

record state =
  fs :: "string \<rightharpoonup> entry"
  loaded :: "string list"
  registry :: "string list"
  trace :: "event list"

text \<open>
  \<open>fs\<close> is the filesystem, \<open>loaded\<close> Node's module cache (the modules already
  evaluated by \<open>require\<close>), \<open>trace\<close> the events so far. The world holds what a call
  only reads: the working directory, the process environment, the answers of
  fs-jetpack's \<open>find\<close> and the registrations of each module.
\<close>

record world =
  cwd :: string
  env :: "string \<rightharpoonup> string"
  fs_find :: "string \<Rightarrow> find_options \<Rightarrow> string list"
  registers :: "string \<Rightarrow> string list"

text \<open>
  \<open>fs.path(p)\<close> resolves \<open>p\<close> against the working directory. Every path the module
  resolves is relative and has no \<open>.\<close> or \<open>..\<close> segment, where resolving is joining.
\<close>

definition fs_path :: "world \<Rightarrow> string \<Rightarrow> string" where
  "fs_path w p = (if cwd w = ''/'' then ''/'' @ p else cwd w @ ''/'' @ p)"

definition fs_exists :: "state \<Rightarrow> string \<Rightarrow> exists_result" where
  "fs_exists s p =
     (case fs s p of
        None \<Rightarrow> Absent
      | Some (FileEntry c) \<Rightarrow> File
      | Some DirEntry \<Rightarrow> Dir
      | Some OtherEntry \<Rightarrow> Other)"

definition fs_write :: "string \<Rightarrow> string \<Rightarrow> state \<Rightarrow> state" where
  "fs_write p content s =
     s\<lparr>fs := (fs s)(p \<mapsto> FileEntry content), trace := trace s @ [Write p content]\<rparr>"

definition debug :: "string \<Rightarrow> string list \<Rightarrow> state \<Rightarrow> state" where
  "debug fmt args s = s\<lparr>trace := trace s @ [Debug fmt args]\<rparr>"

text \<open>
  \<open>require(p)\<close>: the call is recorded; a module that is not in the cache yet is
  evaluated, which puts its registrations into the registry.
\<close>

definition require :: "world \<Rightarrow> string \<Rightarrow> state \<Rightarrow> state" where
  "require w p s =
     (if p \<in> set (loaded s) then s\<lparr>trace := trace s @ [Require p]\<rparr>
      else s\<lparr>loaded := loaded s @ [p],
             registry := registry s @ registers w p,
             trace := trace s @ [Require p]\<rparr>)"

subsection \<open>Schema module loading (createApp, lines 93 to 111)\<close>

fun forEach_import :: "world \<Rightarrow> string list \<Rightarrow> state \<Rightarrow> state" where
  "forEach_import w [] s = s"
| "forEach_import w (schemaModulePath # rest) s =
     forEach_import w rest
       (require w (fs_path w schemaModulePath) (debug ''importing %s'' [schemaModulePath] s))"

definition schema_find_options :: find_options where
  "schema_find_options =
     \<lparr>files = True, directories = False, recursive = True, matching = ''*.ts''\<rparr>"

definition loadSchemaModules :: "world \<Rightarrow> state \<Rightarrow> state" where
  "loadSchemaModules w s0 =
     (let s = debug ''finding schema modules ...'' [] s0 in
      if fs_exists s (fs_path w ''server/schema'') = Dir then
        forEach_import w (fs_find w (fs_path w ''server/schema'') schema_find_options) s
      else if fs_exists s (fs_path w ''schema.ts'') = File then
        require w (fs_path w ''schema.ts'') (debug ''importing %s'' [''schema.ts''] s)
      else if fs_exists s (fs_path w ''server/schema.ts'') = File then
        require w (fs_path w ''server/schema.ts'')
          (debug ''importing %s'' [''server/schema.ts''] s)
      else s)"

subsection \<open>The two flags read from the process environment (lines 113 to 122)\<close>

text \<open>\<open>!process.env.NODE_ENV\<close> holds for a variable that is unset or the empty string.\<close>

definition shouldGenerateArtifacts :: "(string \<rightharpoonup> string) \<Rightarrow> bool" where
  "shouldGenerateArtifacts e =
     (if e ''PUMPKINS_SHOULD_GENERATE_ARTIFACTS'' = Some ''true'' then True
      else if e ''PUMPKINS_SHOULD_GENERATE_ARTIFACTS'' = Some ''false'' then False
      else (e ''NODE_ENV'' = None \<or> e ''NODE_ENV'' = Some []
            \<or> e ''NODE_ENV'' = Some ''development''))"

definition shouldExitAfterGenerateArtifacts :: "(string \<rightharpoonup> string) \<Rightarrow> bool" where
  "shouldExitAfterGenerateArtifacts e =
     (if e ''PUMPKINS_SHOULD_EXIT_AFTER_GENERATE_ARTIFACTS'' = Some ''true'' then True
      else False)"

subsection \<open>Context module resolution (lines 124 to 162)\<close>

datatype error = Error string

definition newline :: string where
  "newline = [CHR 0x0A]"

definition quote :: string where
  "quote = [CHR 0x27]"

text \<open>The template literal of lines 148 to 158, with its line breaks and indentation.\<close>

definition defaultContextSource :: "string \<Rightarrow> string" where
  "defaultContextSource generatedPhotonPackagePath =
     ''import { Photon } from '' @ quote @ generatedPhotonPackagePath @ quote @ newline
     @ newline
     @ ''      const photon = new Photon()'' @ newline
     @ ''      '' @ newline
     @ ''      export type Context = {'' @ newline
     @ ''        photon: Photon'' @ newline
     @ ''      }'' @ newline
     @ ''      '' @ newline
     @ ''      export const createContext = (): Context => ({'' @ newline
     @ ''        photon,'' @ newline
     @ ''      })''"

definition resolveContextModule :: "world \<Rightarrow> string \<Rightarrow> state \<Rightarrow> (error + string) \<times> state" where
  "resolveContextModule w generatedPhotonPackagePath s =
     (let contextModulePathOptional = fs_path w ''server/context.ts'';
          userHasContextModule = fs_exists s contextModulePathOptional
      in if userHasContextModule = File then (Inr contextModulePathOptional, s)
         else if userHasContextModule = Dir then
           (Inl (Error ''context.ts must be a file, but it was a folder!''), s)
         else
           (let contextModulePathPumpkins = fs_path w ''.pumpkins/context.ts''
            in (Inr contextModulePathPumpkins,
                fs_write contextModulePathPumpkins
                  (defaultContextSource generatedPhotonPackagePath) s)))"

subsection \<open>createApp\<close>

text \<open>What the returned object closes over.\<close>

record app =
  app_contextModulePath :: string
  app_generatedPhotonPackagePath :: string
  app_shouldGenerateArtifacts :: bool
  app_shouldExitAfterGenerateArtifacts :: bool

definition createApp :: "world \<Rightarrow> state \<Rightarrow> (error + app) \<times> state" where
  "createApp w s0 =
     (let s1 = loadSchemaModules w s0;
          generatedPhotonPackagePath = fs_path w ''node_modules/@generated/photon''
      in case resolveContextModule w generatedPhotonPackagePath s1 of
           (Inl e, s2) \<Rightarrow> (Inl e, s2)
         | (Inr contextModulePath, s2) \<Rightarrow>
             (Inr \<lparr>app_contextModulePath = contextModulePath,
                   app_generatedPhotonPackagePath = generatedPhotonPackagePath,
                   app_shouldGenerateArtifacts = shouldGenerateArtifacts (env w),
                   app_shouldExitAfterGenerateArtifacts =
                     shouldExitAfterGenerateArtifacts (env w)\<rparr>,
              require w contextModulePath s2))"

subsection \<open>Server options and startServer (lines 69 to 81 and 165 to 211)\<close>

text \<open>
  A port is a whole number here; the template literal prints it in decimal, with a minus
  sign when it is negative.
\<close>

definition digit :: "nat \<Rightarrow> char" where
  "digit d = ''0123456789'' ! d"

fun decimal :: "nat \<Rightarrow> string" where
  "decimal n = (if n < 10 then [digit n] else decimal (n div 10) @ [digit (n mod 10)])"

declare decimal.simps [simp del]

definition numberToString :: "int \<Rightarrow> string" where
  "numberToString i = (if i < 0 then ''-'' @ decimal (nat (- i)) else decimal (nat i))"

text \<open>The pumpkin of the start message is U+1F383, here as its four bytes in UTF-8.\<close>

definition pumpkin :: string where
  "pumpkin = [CHR 0xF0, CHR 0x9F, CHR 0x8E, CHR 0x83]"

text \<open>\<open>ServerOptions\<close>: every key may be left out (\<open>None\<close>).\<close>

record ServerOptions =
  port_opt :: "int option"
  startMessage_opt :: "(int \<Rightarrow> string) option"
  playground_opt :: "bool option"
  introspection_opt :: "bool option"

text \<open>\<open>Required<ServerOptions>\<close>: every key is there.\<close>

record Required_ServerOptions =
  port :: int
  startMessage :: "int \<Rightarrow> string"
  playground :: bool
  introspection :: bool

definition defaultServerOptions :: Required_ServerOptions where
  "defaultServerOptions =
     \<lparr>port = 4000,
      startMessage =
        (\<lambda>port. pumpkin @ ''  Server ready at http://localhost:'' @ numberToString port @ ''/''),
      playground = True,
      introspection = True\<rparr>"

text \<open>The object spread \<open>{...defaults, ...config}\<close>: a key of \<open>config\<close> wins.\<close>

definition spread :: "Required_ServerOptions \<Rightarrow> ServerOptions \<Rightarrow> Required_ServerOptions" where
  "spread defaults config =
     \<lparr>port = (case port_opt config of None \<Rightarrow> port defaults | Some v \<Rightarrow> v),
      startMessage =
        (case startMessage_opt config of None \<Rightarrow> startMessage defaults | Some v \<Rightarrow> v),
      playground =
        (case playground_opt config of None \<Rightarrow> playground defaults | Some v \<Rightarrow> v),
      introspection =
        (case introspection_opt config of None \<Rightarrow> introspection defaults | Some v \<Rightarrow> v)\<rparr>"

definition emptyServerOptions :: ServerOptions where
  "emptyServerOptions =
     \<lparr>port_opt = None, startMessage_opt = None, playground_opt = None,
      introspection_opt = None\<rparr>"

definition emit :: "event \<Rightarrow> state \<Rightarrow> state" where
  "emit e s = s\<lparr>trace := trace s @ [e]\<rparr>"

text \<open>
  \<open>startServer(config = {})\<close>: an argument left out is the empty options object. The
  calls are recorded in the order JavaScript evaluates them: the plugin, the schema, the
  server, the express application, the middleware, the listener and, once it is bound,
  its callback.
\<close>

definition startServer :: "world \<Rightarrow> app \<Rightarrow> ServerOptions option \<Rightarrow> state \<Rightarrow> state" where
  "startServer w a arg s0 =
     (let config = (case arg of None \<Rightarrow> emptyServerOptions | Some c \<Rightarrow> c);
          mergedConfig = spread defaultServerOptions config;
          s1 = emit (NexusPrismaPlugin (app_generatedPhotonPackagePath a)
                       (fs_path w ''node_modules/@types/nexus-typegen-prisma/index.d.ts'')
                       (app_shouldGenerateArtifacts a)) s0;
          s2 = emit (MakeSchema (app_contextModulePath a)
                       (app_generatedPhotonPackagePath a @ ''/index.d.ts'')
                       (app_shouldGenerateArtifacts a)
                       (app_shouldExitAfterGenerateArtifacts a)
                       (registry s1)) s1;
          s3 = emit (NewApolloServer (playground mergedConfig) (introspection mergedConfig)
                       (app_contextModulePath a)) s2;
          s4 = emit Express s3;
          s5 = emit ApplyMiddleware s4;
          s6 = emit (Listen (port mergedConfig)) s5
      in emit (ConsoleLog (startMessage mergedConfig (port mergedConfig))) s6)"

subsection \<open>Reading a trace\<close>

definition events_since :: "state \<Rightarrow> state \<Rightarrow> event list" where
  "events_since s s' = drop (length (trace s)) (trace s')"

fun required :: "event list \<Rightarrow> string list" where
  "required [] = []"
| "required (Require p # es) = p # required es"
| "required (e # es) = required es"

fun written :: "event list \<Rightarrow> (string \<times> string) list" where
  "written [] = []"
| "written (Write p c # es) = (p, c) # written es"
| "written (e # es) = written es"

fun logged :: "event list \<Rightarrow> string list" where
  "logged [] = []"
| "logged (ConsoleLog m # es) = m # logged es"
| "logged (e # es) = logged es"

fun is_server_construction :: "event \<Rightarrow> bool" where
  "is_server_construction (NexusPrismaPlugin a b c) = True"
| "is_server_construction (MakeSchema a b c d r) = True"
| "is_server_construction (NewApolloServer a b c) = True"
| "is_server_construction Express = True"
| "is_server_construction ApplyMiddleware = True"
| "is_server_construction (Listen p) = True"
| "is_server_construction e = False"

subsection \<open>The flag reading of the specification\<close>

text \<open>
  The reading of an environment flag that the specification describes for both flags:
  \<open>'true'\<close> and \<open>'false'\<close> are taken literally, anything else falls back to the default
  of the environment mode, which is on when \<open>NODE_ENV\<close> is unset or \<open>'development'\<close>.
\<close>

definition spec_tri_state_flag :: "string \<Rightarrow> (string \<rightharpoonup> string) \<Rightarrow> bool" where
  "spec_tri_state_flag name e =
     (case e name of
        None \<Rightarrow> (e ''NODE_ENV'' = None \<or> e ''NODE_ENV'' = Some ''development'')
      | Some v \<Rightarrow>
          if v = ''true'' then True
          else if v = ''false'' then False
          else (e ''NODE_ENV'' = None \<or> e ''NODE_ENV'' = Some ''development''))"

subsection \<open>Concrete projects\<close>

text \<open>
  A project in \<open>/app\<close> whose schema directory holds two modules, and the filesystems
  of some variants of it.
\<close>

definition example_world :: world where
  "example_world =
     \<lparr>cwd = ''/app'',
      env = Map.empty,
      fs_find = (\<lambda>dir opts.
        if dir = ''/app/server/schema'' \<and> matching opts = ''*.ts''
        then [''server/schema/user.ts'', ''server/schema/post.ts''] else []),
      registers = (\<lambda>p.
        if p = ''/app/server/schema/user.ts'' then [''User'']
        else if p = ''/app/server/schema/post.ts'' then [''Post'', ''Query'']
        else if p = ''/app/server/schema.ts'' then [''Query'']
        else [])\<rparr>"

definition project_of :: "(string \<rightharpoonup> entry) \<Rightarrow> state" where
  "project_of f = \<lparr>fs = f, loaded = [], registry = [], trace = []\<rparr>"

definition project_bare :: state where
  "project_bare = project_of Map.empty"

definition project_context_folder :: state where
  "project_context_folder = project_of [''/app/server/context.ts'' \<mapsto> DirEntry]"

definition project_user_context :: state where
  "project_user_context =
     project_of [''/app/server/schema'' \<mapsto> DirEntry,
                 ''/app/server/context.ts'' \<mapsto> FileEntry ''export const createContext = () => ({})'']"

definition project_schema_is_file :: state where
  "project_schema_is_file =
     project_of [''/app/server/schema'' \<mapsto> FileEntry [],
                 ''/app/server/schema.ts'' \<mapsto> FileEntry []]"


section \<open>Effects of the operations\<close>

lemma required_append: "required (xs @ ys) = required xs @ required ys"
  by (induction xs rule: required.induct) auto

lemma written_append: "written (xs @ ys) = written xs @ written ys"
  by (induction xs rule: written.induct) auto

lemma debug_fields:
  "trace (debug f a s) = trace s @ [Debug f a]"
  "fs (debug f a s) = fs s"
  "loaded (debug f a s) = loaded s"
  "registry (debug f a s) = registry s"
  by (simp_all add: debug_def)

lemma require_fields:
  "trace (require w p s) = trace s @ [Require p]"
  "fs (require w p s) = fs s"
  by (simp_all add: require_def)

lemma fs_write_fields:
  "trace (fs_write p c s) = trace s @ [Write p c]"
  "fs (fs_write p c s) = (fs s)(p \<mapsto> FileEntry c)"
  "loaded (fs_write p c s) = loaded s"
  "registry (fs_write p c s) = registry s"
  by (simp_all add: fs_write_def)

lemma emit_fields:
  "trace (emit e s) = trace s @ [e]"
  "fs (emit e s) = fs s"
  "loaded (emit e s) = loaded s"
  "registry (emit e s) = registry s"
  by (simp_all add: emit_def)

lemma fs_exists_debug: "fs_exists (debug f a s) p = fs_exists s p"
  by (simp add: fs_exists_def debug_fields)

lemma trace_forEach_import:
  "trace (forEach_import w ps s) =
     trace s @ concat (map (\<lambda>p. [Debug ''importing %s'' [p], Require (fs_path w p)]) ps)"
  by (induction ps arbitrary: s) (simp_all add: debug_fields require_fields)

lemma fs_forEach_import: "fs (forEach_import w ps s) = fs s"
  by (induction ps arbitrary: s) (simp_all add: debug_fields require_fields)

lemma required_imports:
  "required (concat (map (\<lambda>p. [Debug ''importing %s'' [p], Require (f p)]) ps)) = map f ps"
  by (induction ps) auto

lemma written_imports:
  "written (concat (map (\<lambda>p. [Debug ''importing %s'' [p], Require (f p)]) ps)) = []"
  by (induction ps) auto

lemma fs_loadSchemaModules: "fs (loadSchemaModules w s) = fs s"
  by (simp add: loadSchemaModules_def Let_def debug_fields require_fields fs_forEach_import)

lemma fs_exists_loadSchemaModules: "fs_exists (loadSchemaModules w s) p = fs_exists s p"
  by (simp add: fs_exists_def fs_loadSchemaModules)

lemma events_loadSchemaModules:
  "events_since s (loadSchemaModules w s) =
     Debug ''finding schema modules ...'' [] #
     (if fs_exists s (fs_path w ''server/schema'') = Dir then
        concat (map (\<lambda>p. [Debug ''importing %s'' [p], Require (fs_path w p)])
          (fs_find w (fs_path w ''server/schema'') schema_find_options))
      else if fs_exists s (fs_path w ''schema.ts'') = File then
        [Debug ''importing %s'' [''schema.ts''], Require (fs_path w ''schema.ts'')]
      else if fs_exists s (fs_path w ''server/schema.ts'') = File then
        [Debug ''importing %s'' [''server/schema.ts''], Require (fs_path w ''server/schema.ts'')]
      else [])"
  by (simp add: events_since_def loadSchemaModules_def Let_def fs_exists_debug
      trace_forEach_import debug_fields require_fields)

lemma trace_loadSchemaModules:
  "trace (loadSchemaModules w s) = trace s @ events_since s (loadSchemaModules w s)"
  by (simp add: events_since_def loadSchemaModules_def Let_def debug_fields require_fields
      trace_forEach_import)

lemma required_loadSchemaModules:
  "required (events_since s (loadSchemaModules w s)) =
     (if fs_exists s (fs_path w ''server/schema'') = Dir then
        map (fs_path w)
          (fs_find w (fs_path w ''server/schema'')
             \<lparr>files = True, directories = False, recursive = True, matching = ''*.ts''\<rparr>)
      else if fs_exists s (fs_path w ''schema.ts'') = File then [fs_path w ''schema.ts'']
      else if fs_exists s (fs_path w ''server/schema.ts'') = File then
        [fs_path w ''server/schema.ts'']
      else [])"
  by (simp add: events_loadSchemaModules required_imports schema_find_options_def)

lemma registry_require:
  "registry (require w p s) =
     registry s @ (if p \<in> set (loaded s) then [] else registers w p)"
  by (simp add: require_def)

lemma loaded_require:
  "loaded (require w p s) = loaded s @ (if p \<in> set (loaded s) then [] else [p])"
  by (simp add: require_def)

lemma fs_path_inj: "(fs_path w a = fs_path w b) = (a = b)"
  by (simp add: fs_path_def)

lemma createApp_file:
  assumes "fs_exists s (fs_path w ''server/context.ts'') = File"
  shows "createApp w s =
    (Inr \<lparr>app_contextModulePath = fs_path w ''server/context.ts'',
          app_generatedPhotonPackagePath = fs_path w ''node_modules/@generated/photon'',
          app_shouldGenerateArtifacts = shouldGenerateArtifacts (env w),
          app_shouldExitAfterGenerateArtifacts = shouldExitAfterGenerateArtifacts (env w)\<rparr>,
     require w (fs_path w ''server/context.ts'') (loadSchemaModules w s))"
  using assms
  by (simp add: createApp_def resolveContextModule_def Let_def fs_exists_loadSchemaModules)

lemma createApp_dir:
  assumes "fs_exists s (fs_path w ''server/context.ts'') = Dir"
  shows "createApp w s =
    (Inl (Error ''context.ts must be a file, but it was a folder!''), loadSchemaModules w s)"
  using assms
  by (simp add: createApp_def resolveContextModule_def Let_def fs_exists_loadSchemaModules)

lemma createApp_other:
  assumes "fs_exists s (fs_path w ''server/context.ts'') \<noteq> File"
    and "fs_exists s (fs_path w ''server/context.ts'') \<noteq> Dir"
  shows "createApp w s =
    (Inr \<lparr>app_contextModulePath = fs_path w ''.pumpkins/context.ts'',
          app_generatedPhotonPackagePath = fs_path w ''node_modules/@generated/photon'',
          app_shouldGenerateArtifacts = shouldGenerateArtifacts (env w),
          app_shouldExitAfterGenerateArtifacts = shouldExitAfterGenerateArtifacts (env w)\<rparr>,
     require w (fs_path w ''.pumpkins/context.ts'')
       (fs_write (fs_path w ''.pumpkins/context.ts'')
          (defaultContextSource (fs_path w ''node_modules/@generated/photon''))
          (loadSchemaModules w s)))"
  using assms
  by (simp add: createApp_def resolveContextModule_def Let_def fs_exists_loadSchemaModules)

lemma events_since_append:
  "trace s' = trace s @ es \<Longrightarrow> events_since s s' = es"
  by (simp add: events_since_def)

lemma events_createApp_file:
  assumes "fs_exists s (fs_path w ''server/context.ts'') = File"
  shows "events_since s (snd (createApp w s)) =
     events_since s (loadSchemaModules w s) @ [Require (fs_path w ''server/context.ts'')]"
  by (rule events_since_append)
     (simp add: createApp_file [OF assms] require_fields trace_loadSchemaModules [symmetric])

lemma events_createApp_dir:
  assumes "fs_exists s (fs_path w ''server/context.ts'') = Dir"
  shows "events_since s (snd (createApp w s)) = events_since s (loadSchemaModules w s)"
  by (simp add: createApp_dir [OF assms])

lemma events_createApp_other:
  assumes "fs_exists s (fs_path w ''server/context.ts'') \<noteq> File"
    and "fs_exists s (fs_path w ''server/context.ts'') \<noteq> Dir"
  shows "events_since s (snd (createApp w s)) =
     events_since s (loadSchemaModules w s) @
     [Write (fs_path w ''.pumpkins/context.ts'')
        (defaultContextSource (fs_path w ''node_modules/@generated/photon'')),
      Require (fs_path w ''.pumpkins/context.ts'')]"
  by (rule events_since_append)
     (simp add: createApp_other [OF assms] require_fields fs_write_fields
        trace_loadSchemaModules [symmetric])

lemma written_loadSchemaModules: "written (events_since s (loadSchemaModules w s)) = []"
  by (simp add: events_loadSchemaModules written_imports)

lemma no_construction_imports:
  "list_all (\<lambda>e. \<not> is_server_construction e)
     (concat (map (\<lambda>p. [Debug ''importing %s'' [p], Require (f p)]) ps))"
  by (induction ps) auto

lemma no_construction_loadSchemaModules:
  "list_all (\<lambda>e. \<not> is_server_construction e) (events_since s (loadSchemaModules w s))"
  by (simp add: events_loadSchemaModules no_construction_imports)

lemmas example_defs =
  example_world_def project_of_def project_bare_def project_context_folder_def
  project_user_context_def project_schema_is_file_def fs_path_def fs_exists_def

lemma fs_exists_after_createApp_other:
  assumes "fs_exists s (fs_path w ''server/context.ts'') \<noteq> File"
    and "fs_exists s (fs_path w ''server/context.ts'') \<noteq> Dir"
  shows "fs_exists (snd (createApp w s)) (fs_path w ''server/context.ts'') =
    fs_exists s (fs_path w ''server/context.ts'')"
  by (simp add: createApp_other [OF assms] fs_exists_def require_fields fs_write_fields
      fs_loadSchemaModules fs_path_inj)

lemma written_createApp_other:
  assumes "fs_exists s (fs_path w ''server/context.ts'') \<noteq> File"
    and "fs_exists s (fs_path w ''server/context.ts'') \<noteq> Dir"
  shows "written (events_since s (snd (createApp w s))) =
    [(fs_path w ''.pumpkins/context.ts'',
      defaultContextSource (fs_path w ''node_modules/@generated/photon''))]"
  by (simp add: events_createApp_other [OF assms] written_append written_loadSchemaModules)


lemma logged_append: "logged (xs @ ys) = logged xs @ logged ys"
  by (induction xs rule: logged.induct) auto

lemma trace_startServer_events:
  "trace (startServer w a arg s) = trace s @
     [NexusPrismaPlugin (app_generatedPhotonPackagePath a)
        (fs_path w ''node_modules/@types/nexus-typegen-prisma/index.d.ts'')
        (app_shouldGenerateArtifacts a),
      MakeSchema (app_contextModulePath a) (app_generatedPhotonPackagePath a @ ''/index.d.ts'')
        (app_shouldGenerateArtifacts a) (app_shouldExitAfterGenerateArtifacts a) (registry s),
      NewApolloServer
        (playground (spread defaultServerOptions
           (case arg of None \<Rightarrow> emptyServerOptions | Some c \<Rightarrow> c)))
        (introspection (spread defaultServerOptions
           (case arg of None \<Rightarrow> emptyServerOptions | Some c \<Rightarrow> c)))
        (app_contextModulePath a),
      Express,
      ApplyMiddleware,
      Listen (port (spread defaultServerOptions
           (case arg of None \<Rightarrow> emptyServerOptions | Some c \<Rightarrow> c))),
      ConsoleLog
        (startMessage (spread defaultServerOptions
           (case arg of None \<Rightarrow> emptyServerOptions | Some c \<Rightarrow> c))
          (port (spread defaultServerOptions
           (case arg of None \<Rightarrow> emptyServerOptions | Some c \<Rightarrow> c))))]"
  by (simp only: startServer_def Let_def emit_fields append_assoc append_Cons append_Nil)

lemma events_startServer:
  "events_since s (startServer w a arg s) =
     [NexusPrismaPlugin (app_generatedPhotonPackagePath a)
        (fs_path w ''node_modules/@types/nexus-typegen-prisma/index.d.ts'')
        (app_shouldGenerateArtifacts a),
      MakeSchema (app_contextModulePath a) (app_generatedPhotonPackagePath a @ ''/index.d.ts'')
        (app_shouldGenerateArtifacts a) (app_shouldExitAfterGenerateArtifacts a) (registry s),
      NewApolloServer
        (playground (spread defaultServerOptions
           (case arg of None \<Rightarrow> emptyServerOptions | Some c \<Rightarrow> c)))
        (introspection (spread defaultServerOptions
           (case arg of None \<Rightarrow> emptyServerOptions | Some c \<Rightarrow> c)))
        (app_contextModulePath a),
      Express,
      ApplyMiddleware,
      Listen (port (spread defaultServerOptions
           (case arg of None \<Rightarrow> emptyServerOptions | Some c \<Rightarrow> c))),
      ConsoleLog
        (startMessage (spread defaultServerOptions
           (case arg of None \<Rightarrow> emptyServerOptions | Some c \<Rightarrow> c))
          (port (spread defaultServerOptions
           (case arg of None \<Rightarrow> emptyServerOptions | Some c \<Rightarrow> c))))]"
  by (rule events_since_append) (rule trace_startServer_events)

lemma trace_startServer:
  "trace (startServer w a arg s) = trace s @ events_since s (startServer w a arg s)"
  by (simp only: events_startServer trace_startServer_events)

lemma registry_startServer: "registry (startServer w a arg s) = registry s"
  by (simp only: startServer_def Let_def emit_fields)

lemma spread_defaults:
  "port (spread defaultServerOptions c) = (case port_opt c of None \<Rightarrow> 4000 | Some v \<Rightarrow> v)"
  "playground (spread defaultServerOptions c) =
     (case playground_opt c of None \<Rightarrow> True | Some v \<Rightarrow> v)"
  "introspection (spread defaultServerOptions c) =
     (case introspection_opt c of None \<Rightarrow> True | Some v \<Rightarrow> v)"
  "startMessage (spread defaultServerOptions c) =
     (case startMessage_opt c of
        None \<Rightarrow>
          (\<lambda>p. pumpkin @ ''  Server ready at http://localhost:'' @ numberToString p @ ''/'')
      | Some f \<Rightarrow> f)"
  by (simp_all add: spread_def defaultServerOptions_def split: option.split)

lemma numberToString_4000: "numberToString 4000 = ''4000''"
  by (simp add: numberToString_def decimal.simps digit_def)

lemma numberToString_5000: "numberToString 5000 = ''5000''"
  by (simp add: numberToString_def decimal.simps digit_def)

lemma numberToString_8080: "numberToString 8080 = ''8080''"
  by (simp add: numberToString_def decimal.simps digit_def)

lemma trace_createApp:
  "trace (snd (createApp w s)) =
     trace (loadSchemaModules w s) @ events_since (loadSchemaModules w s) (snd (createApp w s))"
proof -
  consider (is_file) "fs_exists s (fs_path w ''server/context.ts'') = File"
    | (is_dir) "fs_exists s (fs_path w ''server/context.ts'') = Dir"
    | (neither) "fs_exists s (fs_path w ''server/context.ts'') \<noteq> File"
        "fs_exists s (fs_path w ''server/context.ts'') \<noteq> Dir"
    by blast
  then show ?thesis
  proof cases
    case is_file
    show ?thesis
      by (simp add: createApp_file [OF is_file] events_since_def require_fields)
  next
    case is_dir
    show ?thesis
      by (simp add: createApp_dir [OF is_dir] events_since_def)
  next
    case neither
    show ?thesis
      by (simp add: createApp_other [OF neither] events_since_def require_fields
          fs_write_fields)
  qed
qed

lemma context_events:
  assumes "fst (createApp w s) = Inr a"
  shows "events_since (loadSchemaModules w s) (snd (createApp w s)) =
      (if fs_exists s (fs_path w ''server/context.ts'') = File
       then [Require (app_contextModulePath a)]
       else [Write (app_contextModulePath a)
               (defaultContextSource (app_generatedPhotonPackagePath a)),
             Require (app_contextModulePath a)])
    \<and> registry (snd (createApp w s)) =
      registry (loadSchemaModules w s) @
      (if app_contextModulePath a \<in> set (loaded (loadSchemaModules w s)) then []
       else registers w (app_contextModulePath a))"
proof -
  consider (is_file) "fs_exists s (fs_path w ''server/context.ts'') = File"
    | (is_dir) "fs_exists s (fs_path w ''server/context.ts'') = Dir"
    | (neither) "fs_exists s (fs_path w ''server/context.ts'') \<noteq> File"
        "fs_exists s (fs_path w ''server/context.ts'') \<noteq> Dir"
    by blast
  then show ?thesis
  proof cases
    case is_file
    with assms show ?thesis
      by (auto simp: createApp_file [OF is_file] events_since_def require_fields
          registry_require)
  next
    case is_dir
    with assms show ?thesis
      by (simp add: createApp_dir [OF is_dir])
  next
    case neither
    with assms show ?thesis
      by (auto simp: createApp_other [OF neither] events_since_def require_fields
          fs_write_fields registry_require)
  qed
qed

lemma debug_fs_update: "debug f a (s\<lparr>fs := g\<rparr>) = (debug f a s)\<lparr>fs := g\<rparr>"
  by (simp add: debug_def)

lemma require_fs_update: "require w p (s\<lparr>fs := g\<rparr>) = (require w p s)\<lparr>fs := g\<rparr>"
  by (simp add: require_def)

lemma fs_exists_removed:
  "p \<noteq> q \<Longrightarrow> fs_exists (x\<lparr>fs := (fs s)(q := None)\<rparr>) p = fs_exists s p"
  by (simp add: fs_exists_def)

lemma fs_exists_removed_same: "fs_exists (x\<lparr>fs := f(q := None)\<rparr>) q = Absent"
  by (simp add: fs_exists_def)

lemma loadSchemaModules_schema_removed:
  assumes "fs_exists s (fs_path w ''server/schema'') \<noteq> Dir"
  shows "loadSchemaModules w (s\<lparr>fs := (fs s)(fs_path w ''server/schema'' := None)\<rparr>) =
    (loadSchemaModules w s)\<lparr>fs := (fs s)(fs_path w ''server/schema'' := None)\<rparr>"
  using assms
  by (simp add: loadSchemaModules_def Let_def fs_exists_debug fs_exists_removed
      fs_exists_removed_same fs_path_inj debug_fs_update require_fs_update)

section \<open>Properties\<close>

text \<open>
  C1. Schema module loading is first match wins, in a fixed order. The modules one call
  of \<open>createApp\<close> requires are, in this order: the modules of exactly one branch of the
  chain, then the context module if the call succeeds. When \<open>server/schema\<close> is a
  directory, the branch is every path that \<open>find\<close> returns under it for files (not
  directories), recursively, matching \<open>*.ts\<close>, each resolved against the working
  directory; else, when \<open>schema.ts\<close> is a file, that file; else, when
  \<open>server/schema.ts\<close> is a file, that file; else nothing.
\<close>

theorem schema_loading_first_match_wins:
  "required (events_since s (snd (createApp w s))) =
     (if fs_exists s (fs_path w ''server/schema'') = Dir then
        map (fs_path w)
          (fs_find w (fs_path w ''server/schema'')
             \<lparr>files = True, directories = False, recursive = True, matching = ''*.ts''\<rparr>)
      else if fs_exists s (fs_path w ''schema.ts'') = File then [fs_path w ''schema.ts'']
      else if fs_exists s (fs_path w ''server/schema.ts'') = File then
        [fs_path w ''server/schema.ts'']
      else [])
     @ (case fst (createApp w s) of Inl e \<Rightarrow> [] | Inr a \<Rightarrow> [app_contextModulePath a])"
proof -
  consider (is_file) "fs_exists s (fs_path w ''server/context.ts'') = File"
    | (is_dir) "fs_exists s (fs_path w ''server/context.ts'') = Dir"
    | (neither) "fs_exists s (fs_path w ''server/context.ts'') \<noteq> File"
        "fs_exists s (fs_path w ''server/context.ts'') \<noteq> Dir"
    by blast
  then show ?thesis
  proof cases
    case is_file
    have ev: "required (events_since s (snd (createApp w s))) =
        required (events_since s (loadSchemaModules w s)) @ [fs_path w ''server/context.ts'']"
      by (simp add: events_createApp_file [OF is_file] required_append)
    have res: "(case fst (createApp w s) of Inl e \<Rightarrow> [] | Inr a \<Rightarrow> [app_contextModulePath a]) =
        [fs_path w ''server/context.ts'']"
      by (simp add: createApp_file [OF is_file])
    show ?thesis
      by (simp only: ev res required_loadSchemaModules)
  next
    case is_dir
    have ev: "required (events_since s (snd (createApp w s))) =
        required (events_since s (loadSchemaModules w s)) @ []"
      by (simp add: events_createApp_dir [OF is_dir])
    have res: "(case fst (createApp w s) of Inl e \<Rightarrow> [] | Inr a \<Rightarrow> [app_contextModulePath a]) = []"
      by (simp add: createApp_dir [OF is_dir])
    show ?thesis
      by (simp only: ev res required_loadSchemaModules)
  next
    case neither
    have ev: "required (events_since s (snd (createApp w s))) =
        required (events_since s (loadSchemaModules w s)) @ [fs_path w ''.pumpkins/context.ts'']"
      by (simp add: events_createApp_other [OF neither] required_append)
    have res: "(case fst (createApp w s) of Inl e \<Rightarrow> [] | Inr a \<Rightarrow> [app_contextModulePath a]) =
        [fs_path w ''.pumpkins/context.ts'']"
      by (simp add: createApp_other [OF neither])
    show ?thesis
      by (simp only: ev res required_loadSchemaModules)
  qed
qed

text \<open>
  C2. \<open>createApp\<close> throws exactly when \<open>server/context.ts\<close> is a directory. The error
  is the configuration error of line 138, it is thrown in the state that schema loading
  left, so without a write and without a context module, and no call that constructs the
  server has been made. No application object is returned, so \<open>startServer\<close> cannot run.
  On every other answer of the probe \<open>createApp\<close> returns an application.
\<close>

theorem context_directory_is_configuration_error:
  "(isl (fst (createApp w s))) = (fs_exists s (fs_path w ''server/context.ts'') = Dir)
   \<and> (fs_exists s (fs_path w ''server/context.ts'') = Dir \<longrightarrow>
        createApp w s =
          (Inl (Error ''context.ts must be a file, but it was a folder!''),
           loadSchemaModules w s)
        \<and> list_all (\<lambda>e. \<not> is_server_construction e)
            (events_since s (snd (createApp w s))))"
proof -
  consider (is_file) "fs_exists s (fs_path w ''server/context.ts'') = File"
    | (is_dir) "fs_exists s (fs_path w ''server/context.ts'') = Dir"
    | (neither) "fs_exists s (fs_path w ''server/context.ts'') \<noteq> File"
        "fs_exists s (fs_path w ''server/context.ts'') \<noteq> Dir"
    by blast
  then show ?thesis
  proof cases
    case is_file
    then show ?thesis by (simp add: createApp_file [OF is_file])
  next
    case is_dir
    then show ?thesis
      by (simp add: createApp_dir [OF is_dir] no_construction_loadSchemaModules)
  next
    case neither
    then show ?thesis by (simp add: createApp_other [OF neither])
  qed
qed

text \<open>C2, at a project whose \<open>server/context.ts\<close> is a folder.\<close>

theorem context_directory_is_configuration_error_witness:
  "fs_exists project_context_folder (fs_path example_world ''server/context.ts'') = Dir
   \<and> createApp example_world project_context_folder =
       (Inl (Error ''context.ts must be a file, but it was a folder!''),
        loadSchemaModules example_world project_context_folder)"
proof -
  have h: "fs_exists project_context_folder (fs_path example_world ''server/context.ts'') = Dir"
    by (simp add: example_defs)
  from context_directory_is_configuration_error [of example_world project_context_folder] h
  show ?thesis by simp
qed

text \<open>
  C3, as the code has it. Only the artifact generation flag is read in three states: its
  variable's \<open>'true'\<close> is true, \<open>'false'\<close> is false, and any other value \<open>v\<close> or no
  value falls back to the environment mode, on exactly when \<open>NODE_ENV\<close> is unset, empty
  or \<open>'development'\<close>. The exit flag is read in two states: true when its variable is
  \<open>'true'\<close>, false for \<open>'false'\<close>, for any other value and for no value, whatever
  \<open>NODE_ENV\<close> is.
\<close>

theorem environment_flags:
  assumes "v \<noteq> ''true''" and "v \<noteq> ''false''"
  shows "shouldGenerateArtifacts (e(''PUMPKINS_SHOULD_GENERATE_ARTIFACTS'' \<mapsto> ''true''))
    \<and> \<not> shouldGenerateArtifacts (e(''PUMPKINS_SHOULD_GENERATE_ARTIFACTS'' \<mapsto> ''false''))
    \<and> shouldGenerateArtifacts (e(''PUMPKINS_SHOULD_GENERATE_ARTIFACTS'' \<mapsto> v)) =
        (e ''NODE_ENV'' = None \<or> e ''NODE_ENV'' = Some [] \<or> e ''NODE_ENV'' = Some ''development'')
    \<and> shouldGenerateArtifacts (e(''PUMPKINS_SHOULD_GENERATE_ARTIFACTS'' := None)) =
        (e ''NODE_ENV'' = None \<or> e ''NODE_ENV'' = Some [] \<or> e ''NODE_ENV'' = Some ''development'')
    \<and> shouldExitAfterGenerateArtifacts
          (e(''PUMPKINS_SHOULD_EXIT_AFTER_GENERATE_ARTIFACTS'' \<mapsto> ''true''))
    \<and> \<not> shouldExitAfterGenerateArtifacts
          (e(''PUMPKINS_SHOULD_EXIT_AFTER_GENERATE_ARTIFACTS'' \<mapsto> ''false''))
    \<and> \<not> shouldExitAfterGenerateArtifacts
          (e(''PUMPKINS_SHOULD_EXIT_AFTER_GENERATE_ARTIFACTS'' \<mapsto> v))
    \<and> \<not> shouldExitAfterGenerateArtifacts
          (e(''PUMPKINS_SHOULD_EXIT_AFTER_GENERATE_ARTIFACTS'' := None))
    \<and> shouldExitAfterGenerateArtifacts (e(''NODE_ENV'' := m)) =
        shouldExitAfterGenerateArtifacts e"
  using assms
  by (simp add: shouldGenerateArtifacts_def shouldExitAfterGenerateArtifacts_def)

text \<open>C3, at the invalid value \<open>'yes'\<close>, in development and in production.\<close>

theorem environment_flags_witness:
  "''yes'' \<noteq> ''true'' \<and> ''yes'' \<noteq> ''false''
   \<and> shouldGenerateArtifacts [''PUMPKINS_SHOULD_GENERATE_ARTIFACTS'' \<mapsto> ''yes'']
   \<and> \<not> shouldGenerateArtifacts
         [''NODE_ENV'' \<mapsto> ''production'', ''PUMPKINS_SHOULD_GENERATE_ARTIFACTS'' \<mapsto> ''yes'']
   \<and> \<not> shouldExitAfterGenerateArtifacts
         [''PUMPKINS_SHOULD_EXIT_AFTER_GENERATE_ARTIFACTS'' \<mapsto> ''yes'']"
proof -
  have h1: "''yes'' \<noteq> ''true''" and h2: "''yes'' \<noteq> ''false''" by simp_all
  from environment_flags [OF h1 h2, of Map.empty]
    environment_flags [OF h1 h2, of "[''NODE_ENV'' \<mapsto> ''production'']"]
  show ?thesis by simp
qed

text \<open>
  C3 as stated fails for the exit flag. With every variable unset the environment mode is
  development-like: the reading of the specification gives true, and artifact generation
  is indeed on, but the exit flag is false.
\<close>

theorem exit_flag_not_tri_state_counterexample:
  "shouldExitAfterGenerateArtifacts Map.empty
     \<noteq> spec_tri_state_flag ''PUMPKINS_SHOULD_EXIT_AFTER_GENERATE_ARTIFACTS'' Map.empty
   \<and> shouldGenerateArtifacts Map.empty
   \<and> \<not> shouldExitAfterGenerateArtifacts Map.empty"
  by (simp add: shouldExitAfterGenerateArtifacts_def shouldGenerateArtifacts_def
      spec_tri_state_flag_def)

text \<open>
  C4, as the code has it. When \<open>server/context.ts\<close> is neither a file nor a directory,
  every call of \<open>createApp\<close> writes exactly one file: the synthesized context module, to
  \<open>.pumpkins/context.ts\<close>. Its text starts with the import of the generated client from
  the resolved path \<open>node_modules/@generated/photon\<close>, and it is the context module of
  the application. Nothing of the state is consulted before writing: a second call, made
  in the state the first one left (where the file is already there with the same text),
  writes it again.
\<close>

theorem default_context_written_on_every_call:
  assumes "fs_exists s (fs_path w ''server/context.ts'') \<noteq> File"
    and "fs_exists s (fs_path w ''server/context.ts'') \<noteq> Dir"
  shows "written (events_since s (snd (createApp w s))) =
      [(fs_path w ''.pumpkins/context.ts'',
        defaultContextSource (fs_path w ''node_modules/@generated/photon''))]
    \<and> fs (snd (createApp w s)) (fs_path w ''.pumpkins/context.ts'') =
      Some (FileEntry (defaultContextSource (fs_path w ''node_modules/@generated/photon'')))
    \<and> (\<exists>rest. defaultContextSource (fs_path w ''node_modules/@generated/photon'') =
          ''import { Photon } from '' @ [CHR 0x27]
          @ fs_path w ''node_modules/@generated/photon'' @ [CHR 0x27] @ rest)
    \<and> (\<exists>a. fst (createApp w s) = Inr a
          \<and> app_contextModulePath a = fs_path w ''.pumpkins/context.ts'')
    \<and> written (events_since (snd (createApp w s))
          (snd (createApp w (snd (createApp w s))))) =
      [(fs_path w ''.pumpkins/context.ts'',
        defaultContextSource (fs_path w ''node_modules/@generated/photon''))]"
proof -
  have again: "fs_exists (snd (createApp w s)) (fs_path w ''server/context.ts'') \<noteq> File"
    "fs_exists (snd (createApp w s)) (fs_path w ''server/context.ts'') \<noteq> Dir"
    using assms by (simp_all add: fs_exists_after_createApp_other)
  have "fs (snd (createApp w s)) (fs_path w ''.pumpkins/context.ts'') =
      Some (FileEntry (defaultContextSource (fs_path w ''node_modules/@generated/photon'')))"
    by (simp add: createApp_other [OF assms] require_fields fs_write_fields)
  moreover have "\<exists>rest. defaultContextSource (fs_path w ''node_modules/@generated/photon'') =
          ''import { Photon } from '' @ [CHR 0x27]
          @ fs_path w ''node_modules/@generated/photon'' @ [CHR 0x27] @ rest"
    by (simp add: defaultContextSource_def quote_def)
  moreover have "\<exists>a. fst (createApp w s) = Inr a
          \<and> app_contextModulePath a = fs_path w ''.pumpkins/context.ts''"
    by (simp add: createApp_other [OF assms])
  ultimately show ?thesis
    using written_createApp_other [OF assms] written_createApp_other [OF again]
    by blast
qed

text \<open>C4, at a project without any file.\<close>

theorem default_context_written_on_every_call_witness:
  "fs_exists project_bare (fs_path example_world ''server/context.ts'') \<noteq> File
   \<and> fs_exists project_bare (fs_path example_world ''server/context.ts'') \<noteq> Dir
   \<and> written (events_since project_bare (snd (createApp example_world project_bare))) =
       [(''/app/.pumpkins/context.ts'',
         defaultContextSource ''/app/node_modules/@generated/photon'')]"
proof -
  have h: "fs_exists project_bare (fs_path example_world ''server/context.ts'') \<noteq> File"
    "fs_exists project_bare (fs_path example_world ''server/context.ts'') \<noteq> Dir"
    by (simp_all add: example_defs)
  have p: "fs_path example_world ''.pumpkins/context.ts'' = ''/app/.pumpkins/context.ts''"
    "fs_path example_world ''node_modules/@generated/photon'' =
       ''/app/node_modules/@generated/photon''"
    by (simp_all add: example_defs)
  from default_context_written_on_every_call [OF h] h p show ?thesis by simp
qed

text \<open>
  C4 as stated fails when \<open>server/context.ts\<close> is a folder: no user context file exists
  there, yet nothing is written and the cache path stays absent (the call throws, see C2).
\<close>

theorem context_folder_not_written_counterexample:
  "fs_exists project_context_folder (fs_path example_world ''server/context.ts'') \<noteq> File
   \<and> written (events_since project_context_folder
         (snd (createApp example_world project_context_folder))) = []
   \<and> fs (snd (createApp example_world project_context_folder))
         (fs_path example_world ''.pumpkins/context.ts'') = None"
proof -
  have h: "fs_exists project_context_folder (fs_path example_world ''server/context.ts'') = Dir"
    by (simp add: example_defs)
  have "fs project_context_folder (fs_path example_world ''.pumpkins/context.ts'') = None"
    by (simp add: example_defs)
  then show ?thesis
    by (simp add: h events_createApp_dir [OF h] createApp_dir [OF h]
        written_loadSchemaModules fs_loadSchemaModules)
qed

text \<open>
  C5. When \<open>server/context.ts\<close> is a file, \<open>createApp\<close> succeeds with that path as the
  context module of the application, makes no call of \<open>fs.write\<close>, and leaves the
  filesystem as it was.
\<close>

theorem user_context_file_used_directly:
  assumes "fs_exists s (fs_path w ''server/context.ts'') = File"
  shows "(\<exists>a. fst (createApp w s) = Inr a
            \<and> app_contextModulePath a = fs_path w ''server/context.ts'')
    \<and> written (events_since s (snd (createApp w s))) = []
    \<and> fs (snd (createApp w s)) = fs s"
proof -
  have "written (events_since s (snd (createApp w s))) = []"
    by (simp add: events_createApp_file [OF assms] written_append written_loadSchemaModules)
  moreover have "fs (snd (createApp w s)) = fs s"
    by (simp add: createApp_file [OF assms] require_fields fs_loadSchemaModules)
  moreover have "\<exists>a. fst (createApp w s) = Inr a
      \<and> app_contextModulePath a = fs_path w ''server/context.ts''"
    by (simp add: createApp_file [OF assms])
  ultimately show ?thesis by blast
qed

text \<open>C5, at a project with its own context module: the cache path stays absent.\<close>

theorem user_context_file_used_directly_witness:
  "fs_exists project_user_context (fs_path example_world ''server/context.ts'') = File
   \<and> (\<exists>a. fst (createApp example_world project_user_context) = Inr a
          \<and> app_contextModulePath a = ''/app/server/context.ts'')
   \<and> written (events_since project_user_context
         (snd (createApp example_world project_user_context))) = []
   \<and> fs (snd (createApp example_world project_user_context)) ''/app/.pumpkins/context.ts'' = None"
proof -
  have h: "fs_exists project_user_context (fs_path example_world ''server/context.ts'') = File"
    by (simp add: example_defs)
  have p: "fs_path example_world ''server/context.ts'' = ''/app/server/context.ts''"
    by (simp add: example_defs)
  have f: "fs project_user_context ''/app/.pumpkins/context.ts'' = None"
    by (simp add: example_defs)
  from user_context_file_used_directly [OF h] h p f show ?thesis by simp
qed

text \<open>
  C6. \<open>startServer\<close> merges its argument over the defaults, key by key: the server is
  constructed with the playground and introspection settings of the argument, or
  \<open>true\<close> where the key is left out; the listener is given the port of the argument, or
  4000; the message logged is the start message of the argument, or the default one,
  applied to that same port. A call without argument is a call with the empty options.
  With \<open>{port: 5000}\<close> the listener is given 5000 and the default message says 5000.
\<close>

theorem startServer_merges_options_over_defaults:
  "events_since s (startServer w a (Some config) s) =
     [NexusPrismaPlugin (app_generatedPhotonPackagePath a)
        (fs_path w ''node_modules/@types/nexus-typegen-prisma/index.d.ts'')
        (app_shouldGenerateArtifacts a),
      MakeSchema (app_contextModulePath a) (app_generatedPhotonPackagePath a @ ''/index.d.ts'')
        (app_shouldGenerateArtifacts a) (app_shouldExitAfterGenerateArtifacts a) (registry s),
      NewApolloServer
        (case playground_opt config of None \<Rightarrow> True | Some v \<Rightarrow> v)
        (case introspection_opt config of None \<Rightarrow> True | Some v \<Rightarrow> v)
        (app_contextModulePath a),
      Express,
      ApplyMiddleware,
      Listen (case port_opt config of None \<Rightarrow> 4000 | Some v \<Rightarrow> v),
      ConsoleLog
        ((case startMessage_opt config of
            None \<Rightarrow>
              (\<lambda>p. pumpkin @ ''  Server ready at http://localhost:'' @ numberToString p @ ''/'')
          | Some f \<Rightarrow> f)
         (case port_opt config of None \<Rightarrow> 4000 | Some v \<Rightarrow> v))]
   \<and> startServer w a None s = startServer w a (Some emptyServerOptions) s
   \<and> events_since s
        (startServer w a
           (Some \<lparr>port_opt = Some 5000, startMessage_opt = None, playground_opt = None,
                  introspection_opt = None\<rparr>) s) =
     [NexusPrismaPlugin (app_generatedPhotonPackagePath a)
        (fs_path w ''node_modules/@types/nexus-typegen-prisma/index.d.ts'')
        (app_shouldGenerateArtifacts a),
      MakeSchema (app_contextModulePath a) (app_generatedPhotonPackagePath a @ ''/index.d.ts'')
        (app_shouldGenerateArtifacts a) (app_shouldExitAfterGenerateArtifacts a) (registry s),
      NewApolloServer True True (app_contextModulePath a),
      Express,
      ApplyMiddleware,
      Listen 5000,
      ConsoleLog (pumpkin @ ''  Server ready at http://localhost:5000/'')]"
proof -
  have "startServer w a None s = startServer w a (Some emptyServerOptions) s"
    by (simp only: startServer_def option.case)
  then show ?thesis
    by (simp add: events_startServer spread_defaults numberToString_5000)
qed



text \<open>
  C8. When \<open>createApp\<close> has returned an application and \<open>startServer\<close> is called on it,
  the trace is, after what was there before, three blocks in this order: the events of
  schema loading, which write nothing and construct nothing; the events of context
  resolution, which are the \<open>require\<close> of the context module, preceded by the write of
  the synthesized module when there is no user file; and the events of \<open>startServer\<close>,
  which load and write nothing and whose second event is the schema build. The registry
  that build reads is the registry \<open>createApp\<close> left, which is the registry after schema
  loading followed by what the context module registers; \<open>startServer\<close> does not change
  it.
\<close>

theorem loading_then_context_then_schema_build:
  assumes "fst (createApp w s) = Inr a"
  shows "trace (startServer w a arg (snd (createApp w s))) =
      trace s
      @ events_since s (loadSchemaModules w s)
      @ events_since (loadSchemaModules w s) (snd (createApp w s))
      @ events_since (snd (createApp w s)) (startServer w a arg (snd (createApp w s)))
    \<and> list_all (\<lambda>e. \<not> is_server_construction e) (events_since s (loadSchemaModules w s))
    \<and> written (events_since s (loadSchemaModules w s)) = []
    \<and> events_since (loadSchemaModules w s) (snd (createApp w s)) =
      (if fs_exists s (fs_path w ''server/context.ts'') = File
       then [Require (app_contextModulePath a)]
       else [Write (app_contextModulePath a)
               (defaultContextSource (app_generatedPhotonPackagePath a)),
             Require (app_contextModulePath a)])
    \<and> (\<exists>plugin server.
          events_since (snd (createApp w s)) (startServer w a arg (snd (createApp w s))) =
            [plugin,
             MakeSchema (app_contextModulePath a)
               (app_generatedPhotonPackagePath a @ ''/index.d.ts'')
               (app_shouldGenerateArtifacts a) (app_shouldExitAfterGenerateArtifacts a)
               (registry (snd (createApp w s)))] @ server
          \<and> required (plugin # server) = [] \<and> written (plugin # server) = [])
    \<and> registry (snd (createApp w s)) =
      registry (loadSchemaModules w s) @
      (if app_contextModulePath a \<in> set (loaded (loadSchemaModules w s)) then []
       else registers w (app_contextModulePath a))
    \<and> registry (startServer w a arg (snd (createApp w s))) = registry (snd (createApp w s))"
proof -
  have t: "trace (startServer w a arg (snd (createApp w s))) =
      trace s
      @ events_since s (loadSchemaModules w s)
      @ events_since (loadSchemaModules w s) (snd (createApp w s))
      @ events_since (snd (createApp w s)) (startServer w a arg (snd (createApp w s)))"
    by (simp only: trace_startServer [of w a arg "snd (createApp w s)"]
        trace_createApp [of w s] trace_loadSchemaModules [of w s] append_assoc)
  have b: "\<exists>plugin server.
          events_since (snd (createApp w s)) (startServer w a arg (snd (createApp w s))) =
            [plugin,
             MakeSchema (app_contextModulePath a)
               (app_generatedPhotonPackagePath a @ ''/index.d.ts'')
               (app_shouldGenerateArtifacts a) (app_shouldExitAfterGenerateArtifacts a)
               (registry (snd (createApp w s)))] @ server
          \<and> required (plugin # server) = [] \<and> written (plugin # server) = []"
    by (simp only: events_startServer) simp
  from t b context_events [OF assms] no_construction_loadSchemaModules [of s w]
    written_loadSchemaModules [of s w] registry_startServer [of w a arg "snd (createApp w s)"]
  show ?thesis by blast
qed

text \<open>
  C8, at a project with a schema directory of two modules and its own context module:
  the whole trace of \<open>createApp\<close> followed by \<open>startServer()\<close>.
\<close>

theorem loading_then_context_then_schema_build_witness:
  "fst (createApp example_world project_user_context) =
     Inr \<lparr>app_contextModulePath = ''/app/server/context.ts'',
          app_generatedPhotonPackagePath = ''/app/node_modules/@generated/photon'',
          app_shouldGenerateArtifacts = True,
          app_shouldExitAfterGenerateArtifacts = False\<rparr>
   \<and> trace (startServer example_world
        \<lparr>app_contextModulePath = ''/app/server/context.ts'',
          app_generatedPhotonPackagePath = ''/app/node_modules/@generated/photon'',
          app_shouldGenerateArtifacts = True,
          app_shouldExitAfterGenerateArtifacts = False\<rparr>
        None (snd (createApp example_world project_user_context))) =
     [Debug ''finding schema modules ...'' [],
      Debug ''importing %s'' [''server/schema/user.ts''],
      Require ''/app/server/schema/user.ts'',
      Debug ''importing %s'' [''server/schema/post.ts''],
      Require ''/app/server/schema/post.ts'',
      Require ''/app/server/context.ts'',
      NexusPrismaPlugin ''/app/node_modules/@generated/photon''
        ''/app/node_modules/@types/nexus-typegen-prisma/index.d.ts'' True,
      MakeSchema ''/app/server/context.ts'' ''/app/node_modules/@generated/photon/index.d.ts''
        True False [''User'', ''Post'', ''Query''],
      NewApolloServer True True ''/app/server/context.ts'',
      Express,
      ApplyMiddleware,
      Listen 4000,
      ConsoleLog (pumpkin @ ''  Server ready at http://localhost:4000/'')]"
proof -
  have h: "fs_exists project_user_context (fs_path example_world ''server/context.ts'') = File"
    by (simp add: example_defs)
  have d: "fs_exists project_user_context ''/app/server/schema'' = Dir"
    by (simp add: example_defs)
  have p: "fs_path example_world ''server/context.ts'' = ''/app/server/context.ts''"
    "fs_path example_world ''node_modules/@generated/photon'' =
       ''/app/node_modules/@generated/photon''"
    "fs_path example_world ''node_modules/@types/nexus-typegen-prisma/index.d.ts'' =
       ''/app/node_modules/@types/nexus-typegen-prisma/index.d.ts''"
    "fs_path example_world ''server/schema'' = ''/app/server/schema''"
    "fs_path example_world ''server/schema/user.ts'' = ''/app/server/schema/user.ts''"
    "fs_path example_world ''server/schema/post.ts'' = ''/app/server/schema/post.ts''"
    by (simp_all add: example_defs)
  have e: "shouldGenerateArtifacts (env example_world) = True"
    "shouldExitAfterGenerateArtifacts (env example_world) = False"
    by (simp_all add: example_world_def shouldGenerateArtifacts_def
        shouldExitAfterGenerateArtifacts_def)
  have f: "fs_find example_world ''/app/server/schema'' schema_find_options =
      [''server/schema/user.ts'', ''server/schema/post.ts'']"
    by (simp add: example_world_def schema_find_options_def)
  have a: "fst (createApp example_world project_user_context) =
     Inr \<lparr>app_contextModulePath = ''/app/server/context.ts'',
          app_generatedPhotonPackagePath = ''/app/node_modules/@generated/photon'',
          app_shouldGenerateArtifacts = True,
          app_shouldExitAfterGenerateArtifacts = False\<rparr>"
    by (simp only: createApp_file [OF h] p e fst_conv)
  have l: "events_since project_user_context
        (loadSchemaModules example_world project_user_context) =
      [Debug ''finding schema modules ...'' [],
       Debug ''importing %s'' [''server/schema/user.ts''],
       Require ''/app/server/schema/user.ts'',
       Debug ''importing %s'' [''server/schema/post.ts''],
       Require ''/app/server/schema/post.ts'']"
    by (simp add: events_loadSchemaModules d p f)
  have t: "trace project_user_context = []"
    by (simp add: project_user_context_def project_of_def)
  have reg: "registry (loadSchemaModules example_world project_user_context) =
      [''User'', ''Post'', ''Query'']"
    "loaded (loadSchemaModules example_world project_user_context) =
      [''/app/server/schema/user.ts'', ''/app/server/schema/post.ts'']"
    by (simp_all add: loadSchemaModules_def Let_def fs_exists_debug d p f
        registry_require loaded_require debug_fields)
       (simp_all add: example_world_def project_user_context_def project_of_def)
  have rw: "registers example_world ''/app/server/context.ts'' = []"
    by (simp add: example_world_def)
  from loading_then_context_then_schema_build [OF a, of None]
  have "trace (startServer example_world
        \<lparr>app_contextModulePath = ''/app/server/context.ts'',
          app_generatedPhotonPackagePath = ''/app/node_modules/@generated/photon'',
          app_shouldGenerateArtifacts = True,
          app_shouldExitAfterGenerateArtifacts = False\<rparr>
        None (snd (createApp example_world project_user_context))) =
      trace project_user_context
      @ events_since project_user_context (loadSchemaModules example_world project_user_context)
      @ [Require ''/app/server/context.ts'']
      @ events_since (snd (createApp example_world project_user_context))
          (startServer example_world
            \<lparr>app_contextModulePath = ''/app/server/context.ts'',
              app_generatedPhotonPackagePath = ''/app/node_modules/@generated/photon'',
              app_shouldGenerateArtifacts = True,
              app_shouldExitAfterGenerateArtifacts = False\<rparr>
            None (snd (createApp example_world project_user_context)))"
    and "registry (snd (createApp example_world project_user_context)) =
      [''User'', ''Post'', ''Query'']"
    using h reg rw by simp_all
  then have "trace (startServer example_world
        \<lparr>app_contextModulePath = ''/app/server/context.ts'',
          app_generatedPhotonPackagePath = ''/app/node_modules/@generated/photon'',
          app_shouldGenerateArtifacts = True,
          app_shouldExitAfterGenerateArtifacts = False\<rparr>
        None (snd (createApp example_world project_user_context))) =
     [Debug ''finding schema modules ...'' [],
      Debug ''importing %s'' [''server/schema/user.ts''],
      Require ''/app/server/schema/user.ts'',
      Debug ''importing %s'' [''server/schema/post.ts''],
      Require ''/app/server/schema/post.ts'',
      Require ''/app/server/context.ts'',
      NexusPrismaPlugin ''/app/node_modules/@generated/photon''
        ''/app/node_modules/@types/nexus-typegen-prisma/index.d.ts'' True,
      MakeSchema ''/app/server/context.ts'' ''/app/node_modules/@generated/photon/index.d.ts''
        True False [''User'', ''Post'', ''Query''],
      NewApolloServer True True ''/app/server/context.ts'',
      Express,
      ApplyMiddleware,
      Listen 4000,
      ConsoleLog (pumpkin @ ''  Server ready at http://localhost:4000/'')]"
    by (simp add: t l events_startServer p spread_defaults emptyServerOptions_def
        numberToString_4000)
  with a show ?thesis by blast
qed

text \<open>
  C9. When \<open>server/schema\<close> is a file, schema loading requires what the two
  single-file checks select (\<open>schema.ts\<close> first, then \<open>server/schema.ts\<close>), and
  \<open>createApp\<close> has the same result, the same trace, the same registry and the same
  module cache as in the filesystem without that path. (Schema loading has no error
  result in this model: \<open>loadSchemaModules\<close> returns a state.)
\<close>

theorem schema_path_as_file_falls_through:
  assumes "fs_exists s (fs_path w ''server/schema'') = File"
  shows "required (events_since s (loadSchemaModules w s)) =
      (if fs_exists s (fs_path w ''schema.ts'') = File then [fs_path w ''schema.ts'']
       else if fs_exists s (fs_path w ''server/schema.ts'') = File then
         [fs_path w ''server/schema.ts'']
       else [])
    \<and> fs_exists (s\<lparr>fs := (fs s)(fs_path w ''server/schema'' := None)\<rparr>)
        (fs_path w ''server/schema'') = Absent
    \<and> fst (createApp w s) =
        fst (createApp w (s\<lparr>fs := (fs s)(fs_path w ''server/schema'' := None)\<rparr>))
    \<and> trace (snd (createApp w s)) =
        trace (snd (createApp w (s\<lparr>fs := (fs s)(fs_path w ''server/schema'' := None)\<rparr>)))
    \<and> registry (snd (createApp w s)) =
        registry (snd (createApp w (s\<lparr>fs := (fs s)(fs_path w ''server/schema'' := None)\<rparr>)))
    \<and> loaded (snd (createApp w s)) =
        loaded (snd (createApp w (s\<lparr>fs := (fs s)(fs_path w ''server/schema'' := None)\<rparr>)))"
proof -
  let ?s' = "s\<lparr>fs := (fs s)(fs_path w ''server/schema'' := None)\<rparr>"
  have nd: "fs_exists s (fs_path w ''server/schema'') \<noteq> Dir"
    using assms by simp
  note L = loadSchemaModules_schema_removed [OF nd]
  have probe: "fs_exists ?s' (fs_path w ''server/context.ts'') =
      fs_exists s (fs_path w ''server/context.ts'')"
    by (simp add: fs_exists_removed fs_path_inj)
  have r: "required (events_since s (loadSchemaModules w s)) =
      (if fs_exists s (fs_path w ''schema.ts'') = File then [fs_path w ''schema.ts'']
       else if fs_exists s (fs_path w ''server/schema.ts'') = File then
         [fs_path w ''server/schema.ts'']
       else [])"
    using nd by (simp add: required_loadSchemaModules)
  have a: "fs_exists ?s' (fs_path w ''server/schema'') = Absent"
    by (rule fs_exists_removed_same)
  consider (is_file) "fs_exists s (fs_path w ''server/context.ts'') = File"
    | (is_dir) "fs_exists s (fs_path w ''server/context.ts'') = Dir"
    | (neither) "fs_exists s (fs_path w ''server/context.ts'') \<noteq> File"
        "fs_exists s (fs_path w ''server/context.ts'') \<noteq> Dir"
    by blast
  then have "fst (createApp w s) = fst (createApp w ?s')
    \<and> trace (snd (createApp w s)) = trace (snd (createApp w ?s'))
    \<and> registry (snd (createApp w s)) = registry (snd (createApp w ?s'))
    \<and> loaded (snd (createApp w s)) = loaded (snd (createApp w ?s'))"
  proof cases
    case is_file
    have is_file': "fs_exists ?s' (fs_path w ''server/context.ts'') = File"
      using is_file probe by simp
    show ?thesis
      by (simp add: createApp_file [OF is_file] createApp_file [OF is_file'] L
          require_fs_update)
  next
    case is_dir
    have is_dir': "fs_exists ?s' (fs_path w ''server/context.ts'') = Dir"
      using is_dir probe by simp
    show ?thesis
      by (simp add: createApp_dir [OF is_dir] createApp_dir [OF is_dir'] L)
  next
    case neither
    have neither': "fs_exists ?s' (fs_path w ''server/context.ts'') \<noteq> File"
      "fs_exists ?s' (fs_path w ''server/context.ts'') \<noteq> Dir"
      using neither probe by simp_all
    show ?thesis
      by (simp add: createApp_other [OF neither] createApp_other [OF neither'] L
          require_fields registry_require loaded_require fs_write_fields fs_write_def)
  qed
  with r a show ?thesis by blast
qed

text \<open>C9, at a project where \<open>server/schema\<close> and \<open>server/schema.ts\<close> are both files.\<close>

theorem schema_path_as_file_falls_through_witness:
  "fs_exists project_schema_is_file (fs_path example_world ''server/schema'') = File
   \<and> required (events_since project_schema_is_file
         (loadSchemaModules example_world project_schema_is_file)) =
       [''/app/server/schema.ts'']
   \<and> \<not> isl (fst (createApp example_world project_schema_is_file))"
proof -
  have h: "fs_exists project_schema_is_file (fs_path example_world ''server/schema'') = File"
    by (simp add: example_defs)
  have p: "fs_exists project_schema_is_file (fs_path example_world ''schema.ts'') \<noteq> File"
    "fs_exists project_schema_is_file (fs_path example_world ''server/schema.ts'') = File"
    "fs_path example_world ''server/schema.ts'' = ''/app/server/schema.ts''"
    by (simp_all add: example_defs)
  have c: "fs_exists (project_schema_is_file
        \<lparr>fs := (fs project_schema_is_file)(fs_path example_world ''server/schema'' := None)\<rparr>)
      (fs_path example_world ''server/context.ts'') \<noteq> Dir"
    by (simp add: example_defs)
  have "\<not> isl (fst (createApp example_world (project_schema_is_file
        \<lparr>fs := (fs project_schema_is_file)(fs_path example_world ''server/schema'' := None)\<rparr>)))"
    using c by (simp add: createApp_def resolveContextModule_def Let_def
        fs_exists_loadSchemaModules)
  with schema_path_as_file_falls_through [OF h] h p show ?thesis by simp
qed

text \<open>
  C10. When the options have no \<open>startMessage\<close>, the events of \<open>startServer\<close> end with
  the listener on the merged port followed by the one and only console message, which is
  the pumpkin, two spaces, \<open>Server ready at http://localhost:\<close>, the merged port in
  decimal and a slash. The merged port is 4000 when the options have no port, and when
  \<open>startServer\<close> is called without argument.
\<close>

theorem default_start_message:
  assumes "startMessage_opt config = None"
  shows "(\<exists>before.
        events_since s (startServer w a (Some config) s) =
          before @
          [Listen (case port_opt config of None \<Rightarrow> 4000 | Some p \<Rightarrow> p),
           ConsoleLog
             ([CHR 0xF0, CHR 0x9F, CHR 0x8E, CHR 0x83] @ ''  Server ready at http://localhost:''
              @ numberToString (case port_opt config of None \<Rightarrow> 4000 | Some p \<Rightarrow> p)
              @ ''/'')]
        \<and> logged before = [])
    \<and> logged (events_since s (startServer w a None s)) =
        [[CHR 0xF0, CHR 0x9F, CHR 0x8E, CHR 0x83] @ ''  Server ready at http://localhost:4000/'']
    \<and> (port_opt config = None \<longrightarrow>
         logged (events_since s (startServer w a (Some config) s)) =
           [[CHR 0xF0, CHR 0x9F, CHR 0x8E, CHR 0x83]
            @ ''  Server ready at http://localhost:4000/''])"
proof -
  have a: "\<exists>before.
        events_since s (startServer w a (Some config) s) =
          before @
          [Listen (case port_opt config of None \<Rightarrow> 4000 | Some p \<Rightarrow> p),
           ConsoleLog
             ([CHR 0xF0, CHR 0x9F, CHR 0x8E, CHR 0x83] @ ''  Server ready at http://localhost:''
              @ numberToString (case port_opt config of None \<Rightarrow> 4000 | Some p \<Rightarrow> p)
              @ ''/'')]
        \<and> logged before = []"
    by (rule exI [of _ "take 5 (events_since s (startServer w a (Some config) s))"])
       (simp add: events_startServer spread_defaults assms pumpkin_def)
  have b: "logged (events_since s (startServer w a None s)) =
        [[CHR 0xF0, CHR 0x9F, CHR 0x8E, CHR 0x83] @ ''  Server ready at http://localhost:4000/'']"
    by (simp add: events_startServer spread_defaults emptyServerOptions_def pumpkin_def
        numberToString_4000)
  have c: "port_opt config = None \<longrightarrow>
         logged (events_since s (startServer w a (Some config) s)) =
           [[CHR 0xF0, CHR 0x9F, CHR 0x8E, CHR 0x83]
            @ ''  Server ready at http://localhost:4000/'']"
    by (simp add: events_startServer spread_defaults assms pumpkin_def numberToString_4000)
  from a b c show ?thesis by blast
qed

text \<open>C10, at the options \<open>{port: 8080, playground: false}\<close>.\<close>

theorem default_start_message_witness:
  "startMessage_opt \<lparr>port_opt = Some 8080, startMessage_opt = None, playground_opt = Some False,
      introspection_opt = None\<rparr> = None
   \<and> logged (events_since project_bare
         (startServer example_world
            \<lparr>app_contextModulePath = ''/app/.pumpkins/context.ts'',
             app_generatedPhotonPackagePath = ''/app/node_modules/@generated/photon'',
             app_shouldGenerateArtifacts = True,
             app_shouldExitAfterGenerateArtifacts = False\<rparr>
            (Some \<lparr>port_opt = Some 8080, startMessage_opt = None, playground_opt = Some False,
               introspection_opt = None\<rparr>)
            project_bare)) =
       [[CHR 0xF0, CHR 0x9F, CHR 0x8E, CHR 0x83] @ ''  Server ready at http://localhost:8080/'']"
proof -
  have h: "startMessage_opt \<lparr>port_opt = Some 8080, startMessage_opt = None,
      playground_opt = Some False, introspection_opt = None\<rparr> = None"
    by simp
  from default_start_message [OF h, of project_bare example_world
      "\<lparr>app_contextModulePath = ''/app/.pumpkins/context.ts'',
        app_generatedPhotonPackagePath = ''/app/node_modules/@generated/photon'',
        app_shouldGenerateArtifacts = True,
        app_shouldExitAfterGenerateArtifacts = False\<rparr>"]
  obtain before where
    "events_since project_bare
       (startServer example_world
          \<lparr>app_contextModulePath = ''/app/.pumpkins/context.ts'',
           app_generatedPhotonPackagePath = ''/app/node_modules/@generated/photon'',
           app_shouldGenerateArtifacts = True,
           app_shouldExitAfterGenerateArtifacts = False\<rparr>
          (Some \<lparr>port_opt = Some 8080, startMessage_opt = None, playground_opt = Some False,
             introspection_opt = None\<rparr>)
          project_bare) =
     before @ [Listen 8080,
       ConsoleLog ([CHR 0xF0, CHR 0x9F, CHR 0x8E, CHR 0x83]
         @ ''  Server ready at http://localhost:'' @ numberToString 8080 @ ''/'')]"
    and "logged before = []"
    by auto
  then show ?thesis
    by (simp add: logged_append numberToString_8080)
qed

end
